theory Spec2Isabelle
  imports Main "HOL-Library.Word"
begin

section \<open>Strings\<close>

text \<open>
  The application is the React component \<open>App\<close> (TypeScript). A JavaScript string is a
  sequence of UTF-16 code units, and \<open>length\<close>, \<open>slice\<close>, \<open>startsWith\<close> and \<open>includes\<close>
  all count and compare code units.
\<close>

type_synonym jsstring = "16 word list"

definition lit :: "string \<Rightarrow> jsstring" where
  "lit s = map of_char s"

text \<open>
  The code units matched by the regular-expression class \<open>\s\<close> and removed by
  \<open>String.prototype.trim\<close>: white space and line terminators of ECMAScript.
\<close>

definition isWhiteSpace :: "16 word \<Rightarrow> bool" where
  "isWhiteSpace c \<longleftrightarrow>
     c = 0x09 \<or> c = 0x0A \<or> c = 0x0B \<or> c = 0x0C \<or> c = 0x0D \<or> c = 0x20 \<or> c = 0xA0 \<or>
     c = 0x1680 \<or> (0x2000 \<le> c \<and> c \<le> 0x200A) \<or> c = 0x2028 \<or> c = 0x2029 \<or>
     c = 0x202F \<or> c = 0x205F \<or> c = 0x3000 \<or> c = 0xFEFF"

definition trim :: "jsstring \<Rightarrow> jsstring" where
  "trim s = rev (dropWhile isWhiteSpace (rev (dropWhile isWhiteSpace s)))"

fun startsWith :: "jsstring \<Rightarrow> jsstring \<Rightarrow> bool" where
  "startsWith s [] = True"
| "startsWith [] (p # ps) = False"
| "startsWith (c # cs) (p # ps) = (c = p \<and> startsWith cs ps)"

fun includes_str :: "jsstring \<Rightarrow> jsstring \<Rightarrow> bool" where
  "includes_str [] sub = (sub = [])"
| "includes_str (c # cs) sub = (startsWith (c # cs) sub \<or> includes_str cs sub)"

text \<open>\<open>Number.prototype.toString\<close> on a non-negative integer: its decimal digits.\<close>

fun toString :: "nat \<Rightarrow> jsstring" where
  "toString n =
     (if n < 10 then [of_nat (48 + n)]
      else toString (n div 10) @ [of_nat (48 + n mod 10)])"

declare toString.simps [simp del]

section \<open>Data model\<close>

datatype STTProvider = gemini | openai | mistral

datatype ApiKeyStatus = idle | validating | valid | invalid

record STTModel =
  model_id :: jsstring
  model_name :: jsstring

record ProviderConfig =
  apiKey :: jsstring
  apiKeyStatus :: ApiKeyStatus
  selectedModel :: jsstring
  availableModels :: "STTModel list"
  isLoadingModels :: bool

record HistoryItem =
  item_id :: jsstring
  item_text :: jsstring
  item_timestamp :: nat

text \<open>
  The values a recording started from the button works with. \<open>startRecording\<close> is
  memoised on \<open>[apiKey, transcribedText]\<close>, and the \<open>onstop\<close> handler it installs calls the
  \<open>transcribeAudio\<close> of the render that created it: \<open>apiKey\<close>, \<open>transcribedText\<close>,
  \<open>selectedProvider\<close> and \<open>currentConfig\<close> are read from that render, not from the state at
  the time of the call.
\<close>

record ui_closure =
  cl_apiKey :: jsstring
  cl_transcribedText :: jsstring
  cl_selectedProvider :: STTProvider
  cl_currentConfig :: ProviderConfig

text \<open>
  What a pending \<open>getUserMedia\<close> call, a \<open>MediaRecorder\<close> and a transcription in flight
  remember of the entry point that created them. The hotkey callback keeps the
  \<open>currentTranscribedText\<close> it read before asking for the microphone; its transcription keeps
  the key, provider and configuration it read from the refs when it began.
\<close>

datatype origin = FromUI ui_closure | FromHotkey jsstring

datatype recorder_state = Rec_recording | Rec_stopping | Rec_inactive

datatype transcription = TrUI ui_closure | TrHotkey jsstring STTProvider ProviderConfig

datatype request =
    ValidateKey STTProvider jsstring
  | ListModels jsstring
  | Transcribe STTProvider jsstring jsstring

text \<open>
  The state of the component (\<open>useState\<close> values and refs), the two entries of
  \<open>localStorage\<close> the modelled functions write, and the asynchronous work outstanding in the
  browser: microphone requests, recorders with their streams, hotkey callbacks suspended at
  the window calls, transcriptions in flight. \<open>micRequests\<close> counts the calls of
  \<open>getUserMedia\<close> and \<open>netLog\<close> lists the HTTP requests sent, newest first. The refs
  \<open>isRecordingRef\<close>, \<open>isTranscribingRef\<close>, \<open>transcribedTextRef\<close>, \<open>apiKeyRef\<close>,
  \<open>selectedProviderRef\<close> and \<open>currentConfigRef\<close> are copied from the state by an effect after
  every render, so they are read here as the state itself.
\<close>

record app_state =
  isRecording :: bool
  isTranscribing :: bool
  transcribedText :: jsstring
  selectedProvider :: STTProvider
  providerConfigs :: "STTProvider \<Rightarrow> ProviderConfig"
  historyEnabled :: bool
  historyLimit :: int
  history :: "HistoryItem list"
  mediaRecorderRef :: "nat option"
  cursorPositionRef :: nat
  lastHotkeyTimeRef :: int
  startRecordingClosure :: ui_closure
  stored_history :: "HistoryItem list option"
  stored_configs :: "(STTProvider \<Rightarrow> ProviderConfig) option"
  micPending :: "origin list"
  recorders :: "(origin \<times> recorder_state) list"
  hotkeyPending :: nat
  transcriptions :: "transcription list"
  micRequests :: nat
  netLog :: "request list"

definition currentConfig :: "app_state \<Rightarrow> ProviderConfig" where
  "currentConfig st = providerConfigs st (selectedProvider st)"

definition DEFAULT_MODELS :: "STTProvider \<Rightarrow> STTModel list" where
  "DEFAULT_MODELS p = (case p of
     gemini \<Rightarrow>
       [\<lparr>model_id = lit ''gemini-2.0-flash'', model_name = lit ''Gemini 2.0 Flash''\<rparr>,
        \<lparr>model_id = lit ''gemini-2.5-flash'', model_name = lit ''Gemini 2.5 Flash''\<rparr>]
   | openai \<Rightarrow>
       [\<lparr>model_id = lit ''whisper-1'', model_name = lit ''Whisper''\<rparr>,
        \<lparr>model_id = lit ''gpt-4o-transcribe'', model_name = lit ''GPT-4o Transcribe''\<rparr>,
        \<lparr>model_id = lit ''gpt-4o-mini-transcribe'',
         model_name = lit ''GPT-4o Mini Transcribe''\<rparr>]
   | mistral \<Rightarrow>
       [\<lparr>model_id = lit ''voxtral-mini-latest'', model_name = lit ''Voxtral Mini (3B)''\<rparr>,
        \<lparr>model_id = lit ''voxtral-small-latest'', model_name = lit ''Voxtral Small (24B)''\<rparr>])"

text \<open>
  \<open>getDefaultConfig\<close>; \<open>oldApiKey\<close> is the entry \<open>google_api_key\<close> of \<open>localStorage\<close>, the
  empty string when there is none, and is used for Gemini only. Every entry of
  \<open>DEFAULT_MODELS\<close> has a first element, which \<open>hd\<close> reads.
\<close>

definition getDefaultConfig :: "jsstring \<Rightarrow> STTProvider \<Rightarrow> ProviderConfig" where
  "getDefaultConfig google_api_key provider =
     (let oldApiKey = (if provider = gemini then google_api_key else [])
      in \<lparr>apiKey = oldApiKey, apiKeyStatus = idle,
          selectedModel = model_id (hd (DEFAULT_MODELS provider)),
          availableModels = DEFAULT_MODELS provider,
          isLoadingModels = False\<rparr>)"

section \<open>History store\<close>

definition isErrorText :: "jsstring \<Rightarrow> bool" where
  "isErrorText text \<longleftrightarrow>
     startsWith text (lit ''Fehler'') \<or> startsWith text (lit ''Bitte'') \<or>
     startsWith text (lit ''API'') \<or> startsWith text (lit ''Keine'') \<or>
     startsWith text (lit ''Mikrofon'') \<or> startsWith text (lit ''Verbindung'')"

text \<open>
  \<open>saveToHistory\<close>. The two arguments \<open>now_id\<close> and \<open>now_ts\<close> are the results of its two
  calls of \<open>Date.now()\<close>. The callback is memoised on \<open>[historyEnabled, historyLimit]\<close>, the
  only state it reads outside the updater, and the updater of \<open>setHistory\<close> receives the
  current list.
\<close>

definition saveToHistory :: "jsstring \<Rightarrow> nat \<Rightarrow> nat \<Rightarrow> app_state \<Rightarrow> app_state" where
  "saveToHistory text now_id now_ts st =
     (if \<not> historyEnabled st \<or> text = [] \<or> length text < 5 then st
      else if isErrorText text then st
      else
        let newItem = \<lparr>item_id = toString now_id, item_text = text, item_timestamp = now_ts\<rparr>;
            prev = history st
        in if prev \<noteq> [] \<and> item_text (hd prev) = text then st
           else
             let newHistory = newItem # prev;
                 newHistory = (if historyLimit st > 0
                               then take (nat (historyLimit st)) newHistory else newHistory)
             in st\<lparr>history := newHistory, stored_history := Some newHistory\<rparr>)"

section \<open>Text merge\<close>

text \<open>
  \<open>insertTextAtCursor\<close>. Its first argument is the \<open>transcribedText\<close> of the render the
  callback belongs to (it is memoised on \<open>[transcribedText]\<close>). \<open>slice\<close> with a non-negative
  index clamps at the end of the string, as \<open>take\<close> and \<open>drop\<close> do; the regular expression
  \<open>/[\s\n]$/\<close> has no \<open>m\<close> flag and tests the last code unit. The deferred
  \<open>setSelectionRange\<close> and scrolling act on the text area only.
\<close>

definition insertTextAtCursor :: "jsstring \<Rightarrow> jsstring \<Rightarrow> app_state \<Rightarrow> app_state" where
  "insertTextAtCursor transcribedText_cl newText st =
     (let pos = cursorPositionRef st;
          before = take pos transcribedText_cl;
          after = drop pos transcribedText_cl;
          needsSpaceBefore = (before \<noteq> [] \<and> \<not> isWhiteSpace (last before));
          separator = (if needsSpaceBefore then lit '' '' else []);
          updatedText = before @ separator @ newText @ after;
          newCursorPos = pos + length separator + length newText
      in st\<lparr>transcribedText := updatedText, cursorPositionRef := newCursorPos\<rparr>)"

text \<open>An idle component with the default configuration, for concrete runs.\<close>

definition init_state :: app_state where
  "init_state =
     \<lparr>isRecording = False, isTranscribing = False, transcribedText = [],
      selectedProvider = gemini, providerConfigs = getDefaultConfig [],
      historyEnabled = True, historyLimit = 25, history = [],
      mediaRecorderRef = None, cursorPositionRef = 0, lastHotkeyTimeRef = 0,
      startRecordingClosure =
        \<lparr>cl_apiKey = [], cl_transcribedText = [], cl_selectedProvider = gemini,
         cl_currentConfig = getDefaultConfig [] gemini\<rparr>,
      stored_history = None, stored_configs = None,
      micPending = [], recorders = [], hotkeyPending = 0, transcriptions = [],
      micRequests = 0, netLog = []\<rparr>"

section \<open>Credential and model registry\<close>

text \<open>
  \<open>updateProviderConfig\<close>. The partial object \<open>updates\<close> is spread over the previous
  configuration of the provider: it is modelled as the function that overwrites the fields
  it carries. The updater receives the current map, and the new map is written to
  \<open>localStorage\<close>.
\<close>

definition updateProviderConfig ::
    "STTProvider \<Rightarrow> (ProviderConfig \<Rightarrow> ProviderConfig) \<Rightarrow> app_state \<Rightarrow> app_state" where
  "updateProviderConfig provider updates st =
     (let prev = providerConfigs st;
          newConfigs = prev(provider := updates (prev provider))
      in st\<lparr>providerConfigs := newConfigs, stored_configs := Some newConfigs\<rparr>)"

definition selectProvider :: "STTProvider \<Rightarrow> app_state \<Rightarrow> app_state" where
  "selectProvider provider st = st\<lparr>selectedProvider := provider\<rparr>"

text \<open>
  An entry of the Gemini catalogue: \<open>displayName\<close> is empty and
  \<open>supportedGenerationMethods\<close> is the empty list when the field is absent. The answer to
  the catalogue request: \<open>fetch\<close> rejects, the status is not 2xx, the body of a 2xx answer
  does not parse, or it parses, with or without a \<open>models\<close> array.
\<close>

record catalog_entry =
  name :: jsstring
  displayName :: jsstring
  supportedGenerationMethods :: "jsstring list"

datatype models_response =
    ModelsFetchRejected
  | ModelsNotOk
  | ModelsBadJson
  | ModelsJson "catalog_entry list option"

text \<open>\<open>s.replace(sub, "")\<close> with a non-empty string pattern: the first occurrence is removed.\<close>

fun removeFirst :: "jsstring \<Rightarrow> jsstring \<Rightarrow> jsstring" where
  "removeFirst [] sub = []"
| "removeFirst (c # cs) sub =
     (if startsWith (c # cs) sub then drop (length sub) (c # cs) else c # removeFirst cs sub)"

definition isAudioModel :: "catalog_entry \<Rightarrow> bool" where
  "isAudioModel m \<longleftrightarrow>
     lit ''generateContent'' \<in> set (supportedGenerationMethods m) \<and>
     (includes_str (name m) (lit ''flash'') \<or> includes_str (name m) (lit ''pro''))"

definition toSTTModel :: "catalog_entry \<Rightarrow> STTModel" where
  "toSTTModel m =
     \<lparr>model_id = removeFirst (name m) (lit ''models/''),
      model_name = (if displayName m \<noteq> [] then displayName m
                    else removeFirst (name m) (lit ''models/''))\<rparr>"

text \<open>
  The body of the \<open>try\<close> block of \<open>fetchModelsForProvider\<close>: the list it computes, or
  \<open>None\<close> when it throws. Only Gemini sends a request.
\<close>

definition fetchedModels :: "STTProvider \<Rightarrow> models_response \<Rightarrow> STTModel list option" where
  "fetchedModels provider resp =
     (case provider of
        gemini \<Rightarrow>
          (case resp of
             ModelsFetchRejected \<Rightarrow> None
           | ModelsNotOk \<Rightarrow> Some (DEFAULT_MODELS gemini)
           | ModelsBadJson \<Rightarrow> None
           | ModelsJson ms \<Rightarrow>
               (let audioModels = (case ms of None \<Rightarrow> [] | Some l \<Rightarrow> filter isAudioModel l)
                in if length audioModels > 0 then Some (map toSTTModel audioModels)
                   else Some (DEFAULT_MODELS gemini)))
      | openai \<Rightarrow>
          Some [\<lparr>model_id = lit ''whisper-1'', model_name = lit ''Whisper''\<rparr>,
                \<lparr>model_id = lit ''gpt-4o-transcribe'', model_name = lit ''GPT-4o Transcribe''\<rparr>,
                \<lparr>model_id = lit ''gpt-4o-mini-transcribe'',
                 model_name = lit ''GPT-4o Mini Transcribe''\<rparr>,
                \<lparr>model_id = lit ''gpt-4o-transcribe-diarize'',
                 model_name = lit ''GPT-4o Diarize (Speaker)''\<rparr>]
      | mistral \<Rightarrow>
          Some [\<lparr>model_id = lit ''voxtral-mini-latest'', model_name = lit ''Voxtral Mini (3B)''\<rparr>,
                \<lparr>model_id = lit ''voxtral-small-latest'',
                 model_name = lit ''Voxtral Small (24B)''\<rparr>])"

text \<open>
  \<open>fetchModelsForProvider\<close>, from the call to the completion of its request. It is memoised
  on \<open>[providerConfigs, updateProviderConfig]\<close> and reads \<open>config\<close> from the map of the render
  it belongs to, the first argument; the updates go to the current state.
\<close>

definition fetchModelsForProvider ::
    "(STTProvider \<Rightarrow> ProviderConfig) \<Rightarrow> STTProvider \<Rightarrow> models_response \<Rightarrow>
     app_state \<Rightarrow> app_state" where
  "fetchModelsForProvider providerConfigs_cl provider resp st =
     (let config = providerConfigs_cl provider
      in if apiKey config = [] \<or> length (apiKey config) < 10 then st
         else
           let st1 = updateProviderConfig provider (\<lambda>c. c\<lparr>isLoadingModels := True\<rparr>) st;
               st2 = (if provider = gemini
                      then st1\<lparr>netLog := ListModels (apiKey config) # netLog st1\<rparr> else st1)
           in case fetchedModels provider resp of
                Some models \<Rightarrow>
                  updateProviderConfig provider
                    (\<lambda>c. c\<lparr>availableModels := models, isLoadingModels := False,
                           apiKeyStatus := valid\<rparr>) st2
              | None \<Rightarrow>
                  updateProviderConfig provider (\<lambda>c. c\<lparr>isLoadingModels := False\<rparr>) st2)"

text \<open>
  \<open>validateProviderApiKey\<close>, from the call to the completion of its probe and of the model
  fetch it starts. The probe either rejects or answers with \<open>response.ok\<close>.
\<close>

datatype probe_result = ProbeRejected | ProbeOk bool

definition validateProviderApiKey ::
    "(STTProvider \<Rightarrow> ProviderConfig) \<Rightarrow> STTProvider \<Rightarrow> jsstring \<Rightarrow> probe_result \<Rightarrow>
     models_response \<Rightarrow> app_state \<Rightarrow> app_state" where
  "validateProviderApiKey providerConfigs_cl provider key probe resp st =
     (if key = [] \<or> length key < 10
      then updateProviderConfig provider (\<lambda>c. c\<lparr>apiKeyStatus := idle\<rparr>) st
      else
        let st1 = updateProviderConfig provider (\<lambda>c. c\<lparr>apiKeyStatus := validating\<rparr>) st;
            st2 = st1\<lparr>netLog := ValidateKey provider key # netLog st1\<rparr>
        in case probe of
             ProbeRejected \<Rightarrow>
               updateProviderConfig provider (\<lambda>c. c\<lparr>apiKeyStatus := invalid\<rparr>) st2
           | ProbeOk isValid \<Rightarrow>
               (let st3 = updateProviderConfig provider
                            (\<lambda>c. c\<lparr>apiKeyStatus := (if isValid then valid else invalid)\<rparr>) st2
                in if isValid then fetchModelsForProvider providerConfigs_cl provider resp st3
                   else st3))"

text \<open>
  \<open>saveProviderApiKey\<close> stores the key at once; the validation it schedules half a second
  later is \<open>validateProviderApiKey\<close> above.
\<close>

definition saveProviderApiKey :: "STTProvider \<Rightarrow> jsstring \<Rightarrow> app_state \<Rightarrow> app_state" where
  "saveProviderApiKey provider key st = updateProviderConfig provider (\<lambda>c. c\<lparr>apiKey := key\<rparr>) st"

text \<open>
  A click on the \<open>i\<close>-th model button of the settings view. The buttons are rendered from
  \<open>currentConfig.availableModels\<close> and only while the key status is \<open>valid\<close>.
\<close>

definition selectModel :: "nat \<Rightarrow> app_state \<Rightarrow> app_state" where
  "selectModel i st =
     (if apiKeyStatus (currentConfig st) = valid \<and> i < length (availableModels (currentConfig st))
      then updateProviderConfig (selectedProvider st)
             (\<lambda>c. c\<lparr>selectedModel := model_id (availableModels (currentConfig st) ! i)\<rparr>) st
      else st)"

section \<open>Provider adapter\<close>

text \<open>
  The answer to the transcription request. \<open>fetch\<close> rejects with an error message, or a
  response arrives with a status and a body; \<open>response.json()\<close> rejects with a message, or
  yields an object. Of that object the code reads the provider's text field (here the empty
  string when it is absent or empty) and the \<open>error\<close> field (\<open>None\<close> when absent, else its
  \<open>message\<close>, empty when that is absent). The status is never read.
\<close>

datatype json_body = BadJson jsstring | Json jsstring "jsstring option"

datatype http_result = FetchRejected jsstring | Response nat json_body

definition providerLabel :: "STTProvider \<Rightarrow> jsstring" where
  "providerLabel p = (case p of gemini \<Rightarrow> lit ''Gemini'' | openai \<Rightarrow> lit ''OpenAI''
                      | mistral \<Rightarrow> lit ''Mistral'')"

text \<open>\<open>transcribeWithProvider\<close>: \<open>Inr\<close> the text returned, \<open>Inl\<close> the message of the error thrown.\<close>

definition transcribeWithProvider ::
    "STTProvider \<Rightarrow> ProviderConfig \<Rightarrow> http_result \<Rightarrow> jsstring + jsstring" where
  "transcribeWithProvider provider config r =
     (case r of
        FetchRejected msg \<Rightarrow> Inl msg
      | Response status body \<Rightarrow>
          (case body of
             BadJson msg \<Rightarrow> Inl msg
           | Json text err \<Rightarrow>
               if text \<noteq> [] then Inr text
               else (case err of
                       Some message \<Rightarrow>
                         Inl (if message \<noteq> [] then message
                              else providerLabel provider @ lit '' API Error'')
                     | None \<Rightarrow> Inl (lit ''Keine Antwort von '' @ providerLabel provider))))"

definition defaultModel :: "STTProvider \<Rightarrow> jsstring" where
  "defaultModel p = (case p of gemini \<Rightarrow> lit ''gemini-2.0-flash'' | openai \<Rightarrow> lit ''whisper-1''
                     | mistral \<Rightarrow> lit ''voxtral-mini-latest'')"

definition transcribeRequest :: "STTProvider \<Rightarrow> ProviderConfig \<Rightarrow> request" where
  "transcribeRequest provider config =
     Transcribe provider
       (if selectedModel config \<noteq> [] then selectedModel config else defaultModel provider)
       (apiKey config)"

section \<open>Transcription runs\<close>

definition noKeyMessage :: jsstring where
  "noKeyMessage = lit ''Bitte API Key in den Settings hinterlegen''"

definition noSpeechSentinel :: jsstring where
  "noSpeechSentinel = lit ''[KEINE SPRACHE ERKANNT]''"

definition noSpeechMessage :: jsstring where
  "noSpeechMessage = lit ''Keine Sprache erkannt. Bitte erneut versuchen.''"

definition invalidKeyMessage :: jsstring where
  "invalidKeyMessage = lit ''API Key ung'' @ [0xFC] @ lit ''ltig''"

definition micDeniedMessage :: jsstring where
  "micDeniedMessage = lit ''Mikrofon-Zugriff verweigert. Bitte Berechtigung erteilen.''"

definition isAuthError :: "jsstring \<Rightarrow> bool" where
  "isAuthError errorMsg \<longleftrightarrow>
     includes_str errorMsg (lit ''401'') \<or> includes_str errorMsg (lit ''403'') \<or>
     includes_str errorMsg (lit ''invalid'')"

text \<open>
  \<open>transcribeAudio\<close>, the run started from the button, in two parts: up to the request, and
  from the answer on. \<open>cl\<close> holds the values of the render the function belongs to.
\<close>

definition transcribeAudio_begin :: "ui_closure \<Rightarrow> app_state \<Rightarrow> app_state" where
  "transcribeAudio_begin cl st =
     (if cl_apiKey cl = [] then st\<lparr>transcribedText := noKeyMessage\<rparr>
      else st\<lparr>isTranscribing := True,
              transcriptions := transcriptions st @ [TrUI cl],
              netLog := transcribeRequest (cl_selectedProvider cl) (cl_currentConfig cl)
                        # netLog st\<rparr>)"

definition transcribeAudio_complete :: "ui_closure \<Rightarrow> http_result \<Rightarrow> app_state \<Rightarrow> app_state" where
  "transcribeAudio_complete cl r st =
     (let st' =
        (case transcribeWithProvider (cl_selectedProvider cl) (cl_currentConfig cl) r of
           Inr transcript \<Rightarrow>
             if transcript = noSpeechSentinel \<or> includes_str transcript noSpeechSentinel
             then (if cl_transcribedText cl = []
                   then st\<lparr>transcribedText := noSpeechMessage\<rparr> else st)
             else insertTextAtCursor (cl_transcribedText cl) (trim transcript) st
         | Inl errorMsg \<Rightarrow>
             if isAuthError errorMsg
             then updateProviderConfig (cl_selectedProvider cl)
                    (\<lambda>c. c\<lparr>apiKeyStatus := invalid\<rparr>)
                    (st\<lparr>transcribedText := invalidKeyMessage\<rparr>)
             else st\<lparr>transcribedText := lit ''Fehler: '' @ errorMsg\<rparr>)
      in st'\<lparr>isTranscribing := False\<rparr>)"

definition transcribeAudio :: "ui_closure \<Rightarrow> http_result \<Rightarrow> app_state \<Rightarrow> app_state" where
  "transcribeAudio cl r st =
     (if cl_apiKey cl = [] then transcribeAudio_begin cl st
      else transcribeAudio_complete cl r (transcribeAudio_begin cl st))"

text \<open>
  \<open>transcribeAudioFromHotkey\<close>. It reads key, provider and configuration from the refs when
  it begins, and the text and the cursor from the refs when the answer arrives; the
  insertion is the same computation as \<open>insertTextAtCursor\<close>, written out in the source.
\<close>

definition transcribeAudioFromHotkey_begin :: "app_state \<Rightarrow> app_state" where
  "transcribeAudioFromHotkey_begin st =
     (let currentApiKey = apiKey (currentConfig st);
          provider = selectedProvider st;
          config = currentConfig st
      in if currentApiKey = [] then st\<lparr>transcribedText := noKeyMessage\<rparr>
         else st\<lparr>isTranscribing := True,
                 transcriptions := transcriptions st @ [TrHotkey currentApiKey provider config],
                 netLog := transcribeRequest provider (config\<lparr>apiKey := currentApiKey\<rparr>)
                           # netLog st\<rparr>)"

definition transcribeAudioFromHotkey_complete ::
    "jsstring \<Rightarrow> STTProvider \<Rightarrow> ProviderConfig \<Rightarrow> http_result \<Rightarrow> app_state \<Rightarrow> app_state" where
  "transcribeAudioFromHotkey_complete currentApiKey provider config r st =
     (let st' =
        (case transcribeWithProvider provider (config\<lparr>apiKey := currentApiKey\<rparr>) r of
           Inr transcript \<Rightarrow>
             if transcript = noSpeechSentinel \<or> includes_str transcript noSpeechSentinel
             then (let currentText = transcribedText st
                   in if currentText = []
                      then st\<lparr>transcribedText := noSpeechMessage\<rparr> else st)
             else insertTextAtCursor (transcribedText st) (trim transcript) st
         | Inl errorMsg \<Rightarrow>
             if isAuthError errorMsg
             then updateProviderConfig provider (\<lambda>c. c\<lparr>apiKeyStatus := invalid\<rparr>)
                    (st\<lparr>transcribedText := invalidKeyMessage\<rparr>)
             else st\<lparr>transcribedText := lit ''Fehler: '' @ errorMsg\<rparr>)
      in st'\<lparr>isTranscribing := False\<rparr>)"

definition transcribeAudioFromHotkey :: "http_result \<Rightarrow> app_state \<Rightarrow> app_state" where
  "transcribeAudioFromHotkey r st =
     (if apiKey (currentConfig st) = [] then transcribeAudioFromHotkey_begin st
      else transcribeAudioFromHotkey_complete (apiKey (currentConfig st)) (selectedProvider st)
             (currentConfig st) r (transcribeAudioFromHotkey_begin st))"

section \<open>Trigger coordinator\<close>

text \<open>
  \<open>startRecording\<close> up to its \<open>await\<close> of \<open>getUserMedia\<close>. \<open>sel\<close> is the
  \<open>selectionStart\<close> of the text area, \<open>None\<close> when the text area is not mounted or has no
  selection.
\<close>

definition startRecording :: "ui_closure \<Rightarrow> nat option \<Rightarrow> app_state \<Rightarrow> app_state" where
  "startRecording cl sel st =
     (if cl_apiKey cl = [] then st\<lparr>transcribedText := noKeyMessage\<rparr>
      else st\<lparr>cursorPositionRef :=
                (case sel of Some p \<Rightarrow> p | None \<Rightarrow> length (cl_transcribedText cl)),
              micPending := micPending st @ [FromUI cl],
              micRequests := Suc (micRequests st)\<rparr>)"

text \<open>
  The rest of the two \<open>try\<close> blocks, run when \<open>getUserMedia\<close> resolves: a recorder is
  created on the new stream, stored in \<open>mediaRecorderRef\<close> and started. The hotkey path
  saves the cursor only here. A recorder is named by its position in \<open>recorders\<close>.
\<close>

definition micGranted :: "origin \<Rightarrow> nat option \<Rightarrow> app_state \<Rightarrow> app_state" where
  "micGranted orig sel st =
     (let st1 = st\<lparr>recorders := recorders st @ [(orig, Rec_recording)],
                   mediaRecorderRef := Some (length (recorders st))\<rparr>
      in case orig of
           FromUI cl \<Rightarrow> st1\<lparr>isRecording := True\<rparr>
         | FromHotkey currentTranscribedText \<Rightarrow>
             st1\<lparr>cursorPositionRef :=
                   (case sel of Some p \<Rightarrow> p | None \<Rightarrow> length currentTranscribedText),
                 isRecording := True\<rparr>)"

text \<open>The \<open>catch\<close> blocks, run when \<open>getUserMedia\<close> rejects.\<close>

definition micDenied :: "origin \<Rightarrow> app_state \<Rightarrow> app_state" where
  "micDenied orig st =
     (case orig of
        FromUI cl \<Rightarrow> st\<lparr>transcribedText := micDeniedMessage\<rparr>
      | FromHotkey currentTranscribedText \<Rightarrow> st)"

text \<open>
  \<open>MediaRecorder.stop()\<close>: a recording recorder starts to stop and will fire \<open>onstop\<close>; on
  any other recorder nothing happens.
\<close>

definition stopRecorder :: "nat \<Rightarrow> app_state \<Rightarrow> app_state" where
  "stopRecorder n st =
     (if n < length (recorders st) \<and> snd (recorders st ! n) = Rec_recording
      then st\<lparr>recorders := (recorders st)[n := (fst (recorders st ! n), Rec_stopping)]\<rparr>
      else st)"

definition stopRecording :: "app_state \<Rightarrow> app_state" where
  "stopRecording st =
     (case mediaRecorderRef st of
        Some n \<Rightarrow> if isRecording st then (stopRecorder n st)\<lparr>isRecording := False\<rparr> else st
      | None \<Rightarrow> st)"

text \<open>
  The record button: \<open>onClick={isRecording ? stopRecording : startRecording}\<close>,
  \<open>disabled={isTranscribing}\<close>.
\<close>

definition recordButton :: "nat option \<Rightarrow> app_state \<Rightarrow> app_state" where
  "recordButton sel st =
     (if isTranscribing st then st
      else if isRecording st then stopRecording st
      else startRecording (startRecordingClosure st) sel st)"

text \<open>
  The hotkey callback, registered once. Up to its \<open>await\<close> of the window calls it checks
  the cooldown against \<open>Date.now()\<close>; once the window is shown it reads the refs and toggles.
\<close>

definition COOLDOWN_MS :: int where
  "COOLDOWN_MS = 300"

definition hotkeyTriggered :: "int \<Rightarrow> app_state \<Rightarrow> app_state" where
  "hotkeyTriggered now st =
     (if now - lastHotkeyTimeRef st < COOLDOWN_MS then st
      else st\<lparr>lastHotkeyTimeRef := now, hotkeyPending := Suc (hotkeyPending st)\<rparr>)"

definition hotkeyToggle :: "app_state \<Rightarrow> app_state" where
  "hotkeyToggle st =
     (let currentIsRecording = isRecording st;
          currentApiKey = apiKey (currentConfig st);
          currentIsTranscribing = isTranscribing st;
          currentTranscribedText = transcribedText st
      in if currentIsRecording
         then (case mediaRecorderRef st of
                 Some n \<Rightarrow> (stopRecorder n st)\<lparr>isRecording := False\<rparr>
               | None \<Rightarrow> st)
         else if currentApiKey \<noteq> [] \<and> \<not> currentIsTranscribing
         then st\<lparr>micPending := micPending st @ [FromHotkey currentTranscribedText],
                 micRequests := Suc (micRequests st)\<rparr>
         else st)"

text \<open>
  \<open>onstop\<close> of a recorder: the tracks of its stream are stopped and the transcription of
  its entry point begins.
\<close>

definition recorderOnStop :: "nat \<Rightarrow> app_state \<Rightarrow> app_state" where
  "recorderOnStop n st =
     (let orig = fst (recorders st ! n);
          st1 = st\<lparr>recorders := (recorders st)[n := (orig, Rec_inactive)]\<rparr>
      in case orig of
           FromUI cl \<Rightarrow> transcribeAudio_begin cl st1
         | FromHotkey currentTranscribedText \<Rightarrow> transcribeAudioFromHotkey_begin st1)"

definition transcriptionDone :: "transcription \<Rightarrow> http_result \<Rightarrow> app_state \<Rightarrow> app_state" where
  "transcriptionDone t r st =
     (case t of
        TrUI cl \<Rightarrow> transcribeAudio_complete cl r st
      | TrHotkey currentApiKey provider config \<Rightarrow>
          transcribeAudioFromHotkey_complete currentApiKey provider config r st)"

text \<open>
  A render after a state change: \<open>useCallback\<close> replaces \<open>startRecording\<close> when \<open>apiKey\<close> or
  \<open>transcribedText\<close> differ from those of the instance it holds.
\<close>

definition render :: "app_state \<Rightarrow> app_state" where
  "render st =
     (let cl = startRecordingClosure st
      in if cl_apiKey cl = apiKey (currentConfig st) \<and> cl_transcribedText cl = transcribedText st
         then st
         else st\<lparr>startRecordingClosure :=
                   \<lparr>cl_apiKey = apiKey (currentConfig st),
                    cl_transcribedText = transcribedText st,
                    cl_selectedProvider = selectedProvider st,
                    cl_currentConfig = currentConfig st\<rparr>\<rparr>)"

text \<open>
  The events of the single-threaded event loop that reach the coordinator. Each is handled
  without interruption up to the next \<open>await\<close>; what is suspended there is resumed by a
  later event. Pending microphone requests and transcriptions are named by their position.
\<close>

datatype event =
    UIClick "nat option"
  | HotkeyPressed int
  | WindowShown
  | MicGranted nat "nat option"
  | MicDenied nat
  | RecorderStopped nat
  | ProviderReplied nat http_result
  | UserEdit jsstring
  | KeyEdited STTProvider jsstring
  | ProviderSelected STTProvider
  | ModelClicked nat

definition dropAt :: "nat \<Rightarrow> 'a list \<Rightarrow> 'a list" where
  "dropAt i xs = take i xs @ drop (Suc i) xs"

definition handle :: "app_state \<Rightarrow> event \<Rightarrow> app_state" where
  "handle st e =
     (case e of
        UIClick sel \<Rightarrow> recordButton sel st
      | HotkeyPressed now \<Rightarrow> hotkeyTriggered now st
      | WindowShown \<Rightarrow>
          if hotkeyPending st = 0 then st
          else hotkeyToggle (st\<lparr>hotkeyPending := hotkeyPending st - 1\<rparr>)
      | MicGranted i sel \<Rightarrow>
          if i < length (micPending st)
          then micGranted (micPending st ! i) sel (st\<lparr>micPending := dropAt i (micPending st)\<rparr>)
          else st
      | MicDenied i \<Rightarrow>
          if i < length (micPending st)
          then micDenied (micPending st ! i) (st\<lparr>micPending := dropAt i (micPending st)\<rparr>)
          else st
      | RecorderStopped n \<Rightarrow>
          if n < length (recorders st) \<and> snd (recorders st ! n) = Rec_stopping
          then recorderOnStop n st else st
      | ProviderReplied i r \<Rightarrow>
          if i < length (transcriptions st)
          then transcriptionDone (transcriptions st ! i) r
                 (st\<lparr>transcriptions := dropAt i (transcriptions st)\<rparr>)
          else st
      | UserEdit s \<Rightarrow> st\<lparr>transcribedText := s\<rparr>
      | KeyEdited provider key \<Rightarrow> saveProviderApiKey provider key st
      | ProviderSelected provider \<Rightarrow> selectProvider provider st
      | ModelClicked i \<Rightarrow> selectModel i st)"

definition step :: "app_state \<Rightarrow> event \<Rightarrow> app_state" where
  "step st e = render (handle st e)"

definition run :: "app_state \<Rightarrow> event list \<Rightarrow> app_state" where
  "run st es = foldl step st es"


definition recordingSessions :: "app_state \<Rightarrow> nat" where
  "recordingSessions st = length (filter (\<lambda>r. snd r = Rec_recording) (recorders st))"




text \<open>An idle component whose Gemini key was migrated from the old storage entry.\<close>

definition idle_state :: "jsstring \<Rightarrow> app_state" where
  "idle_state google_api_key =
     init_state\<lparr>providerConfigs := getDefaultConfig google_api_key,
                startRecordingClosure :=
                  \<lparr>cl_apiKey = google_api_key, cl_transcribedText = [],
                   cl_selectedProvider = gemini,
                   cl_currentConfig = getDefaultConfig google_api_key gemini\<rparr>\<rparr>"

text \<open>
  The recorders between \<open>stop()\<close> and \<open>onstop\<close>, and the state of a coordinator that
  works on one capture at a time: at most one microphone request, recording or stopping
  recorder; at most one hotkey callback waiting for the window, and none while a request
  is pending or a recorder is stopping; the recording flag set exactly while the recorder
  in \<open>mediaRecorderRef\<close> records; no transcription in flight during a capture, at most one
  otherwise, and the transcribing flag set exactly while there is one.
\<close>

definition stoppingSessions :: "app_state \<Rightarrow> nat" where
  "stoppingSessions st = length (filter (\<lambda>r. snd r = Rec_stopping) (recorders st))"

definition coordinated :: "app_state \<Rightarrow> bool" where
  "coordinated st \<longleftrightarrow>
     length (micPending st) + recordingSessions st + stoppingSessions st \<le> 1 \<and>
     hotkeyPending st \<le> 1 \<and>
     (micPending st \<noteq> [] \<or> 0 < stoppingSessions st \<longrightarrow> hotkeyPending st = 0) \<and>
     (isRecording st \<longrightarrow>
        (\<exists>n. mediaRecorderRef st = Some n \<and> n < length (recorders st) \<and>
             snd (recorders st ! n) = Rec_recording)) \<and>
     (\<not> isRecording st \<longrightarrow> recordingSessions st = 0) \<and>
     (0 < length (micPending st) + recordingSessions st + stoppingSessions st \<longrightarrow>
        transcriptions st = [] \<and> \<not> isTranscribing st) \<and>
     length (transcriptions st) \<le> 1 \<and>
     (isTranscribing st \<longleftrightarrow> transcriptions st \<noteq> [])"

section \<open>Concrete configurations\<close>

text \<open>
  A key of thirteen characters, a catalogue entry that passes the filter and one that does
  not, the state after a model fetch that received the first, and a state with OpenAI
  selected and a key stored for it.
\<close>

definition example_key :: jsstring where
  "example_key = lit ''AIzaSyExample''"

definition live_entry :: catalog_entry where
  "live_entry =
     \<lparr>name = lit ''models/gemini-1.5-pro'', displayName = lit ''Gemini 1.5 Pro'',
      supportedGenerationMethods = [lit ''generateContent'']\<rparr>"

definition embed_entry :: catalog_entry where
  "embed_entry =
     \<lparr>name = lit ''models/embedding-001'', displayName = lit ''Embedding 001'',
      supportedGenerationMethods = [lit ''embedContent'']\<rparr>"

definition fetched_state :: app_state where
  "fetched_state =
     fetchModelsForProvider (providerConfigs (idle_state example_key)) gemini
       (ModelsJson (Some [live_entry])) (idle_state example_key)"

definition openai_state :: app_state where
  "openai_state = run init_state [KeyEdited openai example_key, ProviderSelected openai]"

definition unauthorized :: http_result where
  "unauthorized = Response 401 (Json [] (Some (lit ''Incorrect API key provided'')))"

text \<open>The selected model is one of the models listed for the provider.\<close>

definition modelSelected :: "ProviderConfig \<Rightarrow> bool" where
  "modelSelected c \<longleftrightarrow> selectedModel c \<in> set (map model_id (availableModels c))"

section \<open>Text merge: properties\<close>




section \<open>History store: properties\<close>

text \<open>
  Claim C5. \<open>saveToHistory\<close> leaves the state as it is when the history is disabled, the
  text has fewer than five code units, the text starts with one of the error prefixes, or
  the text is that of the newest item; otherwise it puts one new item in front and cuts the
  list to the limit when the limit is positive. Recording the same text a second time
  changes nothing.
\<close>

theorem saveToHistory_record:
  "saveToHistory text n1 n2 st =
     (if \<not> historyEnabled st \<or> length text < 5 \<or> isErrorText text \<or>
         (history st \<noteq> [] \<and> item_text (hd (history st)) = text)
      then st
      else st\<lparr>history :=
                (if 0 < historyLimit st
                 then take (nat (historyLimit st))
                        (\<lparr>item_id = toString n1, item_text = text, item_timestamp = n2\<rparr>
                         # history st)
                 else \<lparr>item_id = toString n1, item_text = text, item_timestamp = n2\<rparr>
                      # history st),
              stored_history :=
                Some (if 0 < historyLimit st
                      then take (nat (historyLimit st))
                             (\<lparr>item_id = toString n1, item_text = text, item_timestamp = n2\<rparr>
                              # history st)
                      else \<lparr>item_id = toString n1, item_text = text, item_timestamp = n2\<rparr>
                           # history st)\<rparr>) \<and>
   saveToHistory text n3 n4 (saveToHistory text n1 n2 st) = saveToHistory text n1 n2 st"
proof -
  have lim: "0 < historyLimit st \<Longrightarrow> take (nat (historyLimit st)) (x # xs)
               = x # take (nat (historyLimit st) - 1) xs" for x :: HistoryItem and xs
    by (cases "nat (historyLimit st)") auto
  show ?thesis
    by (auto simp add: saveToHistory_def Let_def lim)
qed

theorem saveToHistory_record_witness:
  "history (saveToHistory (lit ''hello'') 8 9 (saveToHistory (lit ''hello'') 5 6 init_state))
     = [\<lparr>item_id = lit ''5'', item_text = lit ''hello'', item_timestamp = 6\<rparr>] \<and>
   history (saveToHistory (lit ''Fehler: x'') 5 6 init_state) = [] \<and>
   history (saveToHistory (lit ''hi'') 5 6 init_state) = []"
  using saveToHistory_record [of "lit ''hello''" 5 6 init_state 8 9]
    saveToHistory_record [of "lit ''Fehler: x''" 5 6 init_state 8 9]
    saveToHistory_record [of "lit ''hi''" 5 6 init_state 8 9]
  by (simp add: saveToHistory_def Let_def init_state_def isErrorText_def lit_def toString.simps)

section \<open>Credential and model registry: properties\<close>

lemma fetchedModels_nonempty: "fetchedModels provider resp = Some ms \<Longrightarrow> ms \<noteq> []"
  by (cases provider; cases resp)
     (auto simp add: fetchedModels_def DEFAULT_MODELS_def Let_def split: option.splits if_splits)

lemma fetchedModels_None:
  "fetchedModels provider resp = None \<longleftrightarrow>
     provider = gemini \<and> (resp = ModelsFetchRejected \<or> resp = ModelsBadJson)"
  by (cases provider; cases resp) (auto simp add: fetchedModels_def Let_def)

lemma fetchModels_available:
  assumes "10 \<le> length (apiKey (cl provider))"
  shows "availableModels (providerConfigs (fetchModelsForProvider cl provider resp st) provider) =
           (case fetchedModels provider resp of
              Some ms \<Rightarrow> ms
            | None \<Rightarrow> availableModels (providerConfigs st provider))"
proof -
  have ne: "apiKey (cl provider) \<noteq> []" "\<not> length (apiKey (cl provider)) < 10"
    using assms by auto
  show ?thesis
    by (cases "fetchedModels provider resp")
       (simp_all add: fetchModelsForProvider_def updateProviderConfig_def Let_def ne)
qed

text \<open>
  Claim C6, as amended. For a stored key of at least ten characters, \<open>fetchModelsForProvider\<close>
  sets the provider's \<open>availableModels\<close> to the list its \<open>try\<close> block computes, and that list
  is never empty: for Gemini exactly the catalogue entries that pass the filter, each
  converted by \<open>toSTTModel\<close> and in catalogue order, when there is one, or \<open>DEFAULT_MODELS\<close>
  when the status is not 2xx, the body has no \<open>models\<close> or none matches; for Mistral its
  default list; for OpenAI its default list and one more model. When the request or the
  parsing of its body throws (Gemini only), \<open>availableModels\<close> is left as it was, not reset
  to the defaults. So a list that was not empty is not empty afterwards.
\<close>

theorem fetchModelsForProvider_models:
  assumes "10 \<le> length (apiKey (cl provider))"
  shows "availableModels (providerConfigs (fetchModelsForProvider cl provider resp st) provider) =
           (case fetchedModels provider resp of
              Some ms \<Rightarrow> ms
            | None \<Rightarrow> availableModels (providerConfigs st provider)) \<and>
         (fetchedModels provider resp = None \<longleftrightarrow>
            provider = gemini \<and> (resp = ModelsFetchRejected \<or> resp = ModelsBadJson)) \<and>
         (\<forall>ms. fetchedModels provider resp = Some ms \<longrightarrow> ms \<noteq> []) \<and>
         (provider = gemini \<and>
          (resp = ModelsNotOk \<or> resp = ModelsJson None \<or>
           (\<exists>l. resp = ModelsJson (Some l) \<and> filter isAudioModel l = [])) \<longrightarrow>
            fetchedModels provider resp = Some (DEFAULT_MODELS gemini)) \<and>
         (provider = mistral \<longrightarrow> fetchedModels provider resp = Some (DEFAULT_MODELS mistral)) \<and>
         (provider = openai \<longrightarrow>
            fetchedModels provider resp =
              Some (DEFAULT_MODELS openai @
                    [\<lparr>model_id = lit ''gpt-4o-transcribe-diarize'',
                      model_name = lit ''GPT-4o Diarize (Speaker)''\<rparr>])) \<and>
         (availableModels (providerConfigs st provider) \<noteq> [] \<longrightarrow>
            availableModels (providerConfigs (fetchModelsForProvider cl provider resp st) provider)
              \<noteq> []) \<and>
         (filter isAudioModel l \<noteq> [] \<longrightarrow>
            fetchedModels gemini (ModelsJson (Some l)) =
              Some (map toSTTModel (filter isAudioModel l))) \<and>
         (provider = gemini \<and> resp = ModelsJson (Some l) \<and> filter isAudioModel l \<noteq> [] \<longrightarrow>
            availableModels (providerConfigs (fetchModelsForProvider cl provider resp st) provider)
              = map toSTTModel (filter isAudioModel l))"
    (is "?A \<and> ?B \<and> ?C \<and> ?D \<and> ?E \<and> ?F \<and> ?G \<and> ?H \<and> ?I")
proof -
  have a: ?A using assms by (rule fetchModels_available)
  have b: ?B by (rule fetchedModels_None)
  have c: ?C using fetchedModels_nonempty by blast
  have d: ?D by (auto simp add: fetchedModels_def Let_def)
  have e: ?E by (simp add: fetchedModels_def DEFAULT_MODELS_def)
  have f: ?F by (simp add: fetchedModels_def DEFAULT_MODELS_def)
  have g: ?G
  proof (cases "fetchedModels provider resp")
    case None
    then show ?thesis using a by simp
  next
    case (Some ms)
    then show ?thesis using a c by simp
  qed
  have h: ?H by (simp add: fetchedModels_def Let_def)
  have i: ?I
  proof (intro impI)
    assume p: "provider = gemini \<and> resp = ModelsJson (Some l) \<and> filter isAudioModel l \<noteq> []"
    with h have "fetchedModels provider resp = Some (map toSTTModel (filter isAudioModel l))"
      by simp
    with a show "availableModels
        (providerConfigs (fetchModelsForProvider cl provider resp st) provider)
          = map toSTTModel (filter isAudioModel l)"
      by simp
  qed
  from a b c d e f g h i show ?thesis by (intro conjI)
qed

lemma idle_key: "apiKey (providerConfigs (idle_state k) gemini) = k"
  by (simp add: idle_state_def init_state_def getDefaultConfig_def)

lemma example_key_length: "length example_key = 13"
  by (simp add: example_key_def lit_def)

text \<open>
  A Gemini lookup answered with a status that is not 2xx, and one answered with a catalogue
  of a matching and a non-matching entry: only the matching one is stored.
\<close>

theorem fetchModelsForProvider_models_witness:
  "availableModels (providerConfigs
     (fetchModelsForProvider (providerConfigs (idle_state example_key)) gemini ModelsNotOk
        (idle_state example_key)) gemini) = DEFAULT_MODELS gemini \<and>
   availableModels (providerConfigs
     (fetchModelsForProvider (providerConfigs (idle_state example_key)) gemini
        (ModelsJson (Some [live_entry, embed_entry])) (idle_state example_key)) gemini)
     = [\<lparr>model_id = lit ''gemini-1.5-pro'', model_name = lit ''Gemini 1.5 Pro''\<rparr>]"
proof -
  have h: "10 \<le> length (apiKey (providerConfigs (idle_state example_key) gemini))"
    by (simp add: idle_key example_key_length)
  have n: "fetchedModels gemini ModelsNotOk = Some (DEFAULT_MODELS gemini)"
    by (simp add: fetchedModels_def)
  have f: "filter isAudioModel [live_entry, embed_entry] = [live_entry]"
    by (simp add: isAudioModel_def live_entry_def embed_entry_def lit_def)
  have m: "map toSTTModel [live_entry] =
             [\<lparr>model_id = lit ''gemini-1.5-pro'', model_name = lit ''Gemini 1.5 Pro''\<rparr>]"
    by (simp add: toSTTModel_def live_entry_def lit_def)
  have one: "availableModels (providerConfigs
     (fetchModelsForProvider (providerConfigs (idle_state example_key)) gemini ModelsNotOk
        (idle_state example_key)) gemini) = DEFAULT_MODELS gemini"
    using h n fetchModelsForProvider_models
      [where cl="providerConfigs (idle_state example_key)" and provider=gemini
         and resp=ModelsNotOk and st="idle_state example_key"]
    by simp
  have two: "availableModels (providerConfigs
     (fetchModelsForProvider (providerConfigs (idle_state example_key)) gemini
        (ModelsJson (Some [live_entry, embed_entry])) (idle_state example_key)) gemini)
     = map toSTTModel (filter isAudioModel [live_entry, embed_entry])"
  proof -
    have ne: "filter isAudioModel [live_entry, embed_entry] \<noteq> []"
      unfolding f by simp
    from fetchModelsForProvider_models
      [where cl="providerConfigs (idle_state example_key)" and provider=gemini
         and resp="ModelsJson (Some [live_entry, embed_entry])"
         and st="idle_state example_key" and l="[live_entry, embed_entry]", OF h] ne
    show ?thesis by blast
  qed
  from one two [unfolded f m] show ?thesis by (rule conjI)
qed

lemma fetched_state_models:
  "availableModels (providerConfigs fetched_state gemini) =
     [\<lparr>model_id = lit ''gemini-1.5-pro'', model_name = lit ''Gemini 1.5 Pro''\<rparr>]"
proof -
  have h: "10 \<le> length (apiKey (providerConfigs (idle_state example_key) gemini))"
    by (simp add: idle_key example_key_length)
  have "fetchedModels gemini (ModelsJson (Some [live_entry])) =
          Some [\<lparr>model_id = lit ''gemini-1.5-pro'', model_name = lit ''Gemini 1.5 Pro''\<rparr>]"
    by (simp add: fetchedModels_def live_entry_def isAudioModel_def toSTTModel_def lit_def)
  then show ?thesis
    unfolding fetched_state_def
    using h fetchModels_available
      [of "providerConfigs (idle_state example_key)" gemini "ModelsJson (Some [live_entry])"
          "idle_state example_key"]
    by simp
qed

lemma fetchModels_apiKey:
  "apiKey (providerConfigs (fetchModelsForProvider cl p resp st) q) = apiKey (providerConfigs st q)"
  by (cases "fetchedModels p resp")
     (simp_all add: fetchModelsForProvider_def updateProviderConfig_def Let_def)

lemma fetchModels_selectedModel:
  "selectedModel (providerConfigs (fetchModelsForProvider cl p resp st) q) =
     selectedModel (providerConfigs st q)"
  by (cases "fetchedModels p resp")
     (simp_all add: fetchModelsForProvider_def updateProviderConfig_def Let_def)

text \<open>
  Claim C6 as stated fails: after a fetch that stored a catalogue model, a second fetch whose
  request is rejected keeps that list; the result is not the default list.
\<close>

theorem fetchModelsForProvider_rejected_counterexample:
  "availableModels (providerConfigs
     (fetchModelsForProvider (providerConfigs fetched_state) gemini ModelsFetchRejected
        fetched_state) gemini)
     = [\<lparr>model_id = lit ''gemini-1.5-pro'', model_name = lit ''Gemini 1.5 Pro''\<rparr>] \<and>
   availableModels (providerConfigs
     (fetchModelsForProvider (providerConfigs fetched_state) gemini ModelsFetchRejected
        fetched_state) gemini)
     \<noteq> DEFAULT_MODELS gemini"
proof -
  have k: "apiKey (providerConfigs fetched_state gemini) = example_key"
    by (simp add: fetched_state_def fetchModels_apiKey idle_key)
  have h: "10 \<le> length (apiKey (providerConfigs fetched_state gemini))"
    by (simp add: k example_key_length)
  have n: "fetchedModels gemini ModelsFetchRejected = None"
    by (simp add: fetchedModels_def)
  have "availableModels (providerConfigs
     (fetchModelsForProvider (providerConfigs fetched_state) gemini ModelsFetchRejected
        fetched_state) gemini) = availableModels (providerConfigs fetched_state gemini)"
    using h n fetchModels_available
      [of "providerConfigs fetched_state" gemini ModelsFetchRejected fetched_state]
    by simp
  then show ?thesis
    by (simp add: fetched_state_models DEFAULT_MODELS_def)
qed

lemma selectModel_member:
  assumes "apiKeyStatus (currentConfig st) = valid"
    and "i < length (availableModels (currentConfig st))"
  shows "modelSelected (currentConfig (selectModel i st))"
  using assms
  by (simp add: selectModel_def modelSelected_def currentConfig_def updateProviderConfig_def
      Let_def)

lemma selectModel_others:
  "q \<noteq> selectedProvider st \<Longrightarrow> providerConfigs (selectModel i st) q = providerConfigs st q"
  by (simp add: selectModel_def updateProviderConfig_def Let_def)

lemma fetchModels_modelSelected:
  assumes "10 \<le> length (apiKey (cl p))"
  shows "modelSelected (providerConfigs (fetchModelsForProvider cl p resp st) p) =
           (case fetchedModels p resp of
              Some ms \<Rightarrow> selectedModel (providerConfigs st p) \<in> set (map model_id ms)
            | None \<Rightarrow> modelSelected (providerConfigs st p))"
  unfolding modelSelected_def fetchModels_selectedModel
  using assms fetchModels_available [of cl p resp st]
  by (cases "fetchedModels p resp") simp_all

lemma validate_fields:
  assumes "probe \<noteq> ProbeOk True"
  shows "selectedModel (providerConfigs (validateProviderApiKey cl p key probe resp st) q) =
           selectedModel (providerConfigs st q) \<and>
         availableModels (providerConfigs (validateProviderApiKey cl p key probe resp st) q) =
           availableModels (providerConfigs st q)"
proof (cases probe)
  case ProbeRejected
  then show ?thesis
    by (simp add: validateProviderApiKey_def updateProviderConfig_def Let_def)
next
  case (ProbeOk b)
  with assms have "\<not> b" by simp
  with ProbeOk show ?thesis
    by (simp add: validateProviderApiKey_def updateProviderConfig_def Let_def)
qed

lemma static_lists_cover_defaults:
  assumes "p \<noteq> gemini" and "fetchedModels p resp = Some ms"
    and "m \<in> set (map model_id (DEFAULT_MODELS p))"
  shows "m \<in> set (map model_id ms)"
  using assms by (cases p) (auto simp add: fetchedModels_def DEFAULT_MODELS_def)

text \<open>
  Claim C8, as amended. A click on a model button makes the selected model a member of the
  current provider's \<open>availableModels\<close> and touches no other provider. A model fetch never
  changes \<open>selectedModel\<close>: after it the selected model is a member exactly when it is in
  the fetched list (or, when the request throws, when it was a member before), which holds
  for OpenAI and Mistral whenever the selection is one of their defaults. A key validation
  that does not succeed changes neither field.
\<close>

theorem model_selection_membership:
  "(apiKeyStatus (currentConfig st) = valid \<and> i < length (availableModels (currentConfig st))
      \<longrightarrow> modelSelected (currentConfig (selectModel i st))) \<and>
   (\<forall>q. q \<noteq> selectedProvider st \<longrightarrow>
      providerConfigs (selectModel i st) q = providerConfigs st q) \<and>
   selectedModel (providerConfigs (fetchModelsForProvider cl p resp st) q) =
     selectedModel (providerConfigs st q) \<and>
   (10 \<le> length (apiKey (cl p)) \<longrightarrow>
      modelSelected (providerConfigs (fetchModelsForProvider cl p resp st) p) =
        (case fetchedModels p resp of
           Some ms \<Rightarrow> selectedModel (providerConfigs st p) \<in> set (map model_id ms)
         | None \<Rightarrow> modelSelected (providerConfigs st p))) \<and>
   (\<not> 10 \<le> length (apiKey (cl p)) \<longrightarrow> fetchModelsForProvider cl p resp st = st) \<and>
   (\<forall>ms. p \<noteq> gemini \<and> fetchedModels p resp = Some ms \<and>
      selectedModel (providerConfigs st p) \<in> set (map model_id (DEFAULT_MODELS p)) \<longrightarrow>
      selectedModel (providerConfigs st p) \<in> set (map model_id ms)) \<and>
   (probe \<noteq> ProbeOk True \<longrightarrow>
      modelSelected (providerConfigs (validateProviderApiKey cl p key probe resp st) q) =
        modelSelected (providerConfigs st q))"
  (is "?A \<and> ?B \<and> ?C \<and> ?D \<and> ?E \<and> ?F \<and> ?G")
proof -
  have a: ?A using selectModel_member by blast
  have b: ?B using selectModel_others by blast
  have c: ?C by (rule fetchModels_selectedModel)
  have d: ?D using fetchModels_modelSelected by blast
  have e: ?E by (simp add: fetchModelsForProvider_def Let_def)
  have f: ?F using static_lists_cover_defaults by blast
  have g: ?G using validate_fields [of probe cl p key resp st q]
    by (simp add: modelSelected_def)
  from a b c d e f g show ?thesis by (intro conjI)
qed

lemma fetched_state_status: "apiKeyStatus (currentConfig fetched_state) = valid"
proof -
  have f: "fetchedModels gemini (ModelsJson (Some [live_entry])) =
          Some [\<lparr>model_id = lit ''gemini-1.5-pro'', model_name = lit ''Gemini 1.5 Pro''\<rparr>]"
    by (simp add: fetchedModels_def live_entry_def isAudioModel_def toSTTModel_def lit_def)
  have k: "apiKey (getDefaultConfig example_key gemini) = example_key"
    by (simp add: getDefaultConfig_def)
  have ne: "example_key \<noteq> []"
    using example_key_length by auto
  show ?thesis
    using ne
    by (simp add: fetched_state_def currentConfig_def fetchModelsForProvider_def
        updateProviderConfig_def Let_def f idle_state_def init_state_def k example_key_length)
qed

lemma fetched_state_current: "currentConfig fetched_state = providerConfigs fetched_state gemini"
proof -
  have "selectedProvider (fetchModelsForProvider cl p resp st) = selectedProvider st"
    for cl p resp st
    by (cases "fetchedModels p resp")
       (simp_all add: fetchModelsForProvider_def updateProviderConfig_def Let_def)
  then show ?thesis
    by (simp add: currentConfig_def fetched_state_def idle_state_def init_state_def)
qed

text \<open>Selecting the only model of the fetched list.\<close>

theorem model_selection_membership_witness:
  "modelSelected (currentConfig (selectModel 0 fetched_state)) \<and>
   selectedModel (currentConfig (selectModel 0 fetched_state)) = lit ''gemini-1.5-pro''"
proof -
  have l: "0 < length (availableModels (currentConfig fetched_state))"
    by (simp add: fetched_state_current fetched_state_models)
  have "selectedModel (currentConfig (selectModel 0 fetched_state)) = lit ''gemini-1.5-pro''"
    using l fetched_state_status
    by (simp add: selectModel_def currentConfig_def updateProviderConfig_def Let_def
        fetched_state_current [unfolded currentConfig_def] fetched_state_models)
  then show ?thesis
    using model_selection_membership [of fetched_state 0] l fetched_state_status
    by simp
qed

lemma fetched_state_provider: "selectedProvider fetched_state = gemini"
proof -
  have "selectedProvider (fetchModelsForProvider cl p resp st) = selectedProvider st"
    for cl p resp st
    by (cases "fetchedModels p resp")
       (simp_all add: fetchModelsForProvider_def updateProviderConfig_def Let_def)
  then show ?thesis
    by (simp add: fetched_state_def idle_state_def init_state_def)
qed

lemma selected_live:
  "selectedModel (providerConfigs (selectModel 0 fetched_state) gemini) = lit ''gemini-1.5-pro'' \<and>
   apiKey (providerConfigs (selectModel 0 fetched_state) gemini) = example_key"
proof -
  have l: "0 < length (availableModels (currentConfig fetched_state))"
    by (simp add: fetched_state_current fetched_state_models)
  have k: "apiKey (providerConfigs fetched_state gemini) = example_key"
    by (simp add: fetched_state_def fetchModels_apiKey idle_key)
  show ?thesis
    using l fetched_state_status k fetched_state_provider
    by (simp add: selectModel_def currentConfig_def updateProviderConfig_def Let_def
        fetched_state_current [unfolded currentConfig_def] fetched_state_models)
qed

text \<open>
  Claim C8 as stated fails. From the default Gemini configuration, a completed fetch whose
  catalogue holds one matching model leaves \<open>gemini-2.0-flash\<close> selected, which is not in
  the fetched list. And once that catalogue model has been selected, a later fetch answered
  with a status that is not 2xx stores the default list, which does not contain it.
\<close>

theorem fetch_breaks_selection_counterexample:
  "selectedModel (providerConfigs fetched_state gemini) = lit ''gemini-2.0-flash'' \<and>
   map model_id (availableModels (providerConfigs fetched_state gemini))
     = [lit ''gemini-1.5-pro''] \<and>
   \<not> modelSelected (providerConfigs fetched_state gemini) \<and>
   \<not> modelSelected (providerConfigs
      (fetchModelsForProvider (providerConfigs (selectModel 0 fetched_state)) gemini ModelsNotOk
         (selectModel 0 fetched_state)) gemini)"
proof -
  have s: "selectedModel (providerConfigs fetched_state gemini) = lit ''gemini-2.0-flash''"
    by (simp add: fetched_state_def fetchModels_selectedModel idle_state_def init_state_def
        getDefaultConfig_def DEFAULT_MODELS_def)
  have h: "10 \<le> length (apiKey (providerConfigs (selectModel 0 fetched_state) gemini))"
    by (simp add: selected_live example_key_length)
  have f: "fetchedModels gemini ModelsNotOk = Some (DEFAULT_MODELS gemini)"
    by (simp add: fetchedModels_def)
  have "\<not> modelSelected (providerConfigs
      (fetchModelsForProvider (providerConfigs (selectModel 0 fetched_state)) gemini ModelsNotOk
         (selectModel 0 fetched_state)) gemini)"
    using h fetchModels_modelSelected
      [of "providerConfigs (selectModel 0 fetched_state)" gemini ModelsNotOk
          "selectModel 0 fetched_state"]
    by (simp add: f selected_live DEFAULT_MODELS_def lit_def)
  then show ?thesis
    by (simp add: modelSelected_def s fetched_state_models lit_def)
qed

text \<open>
  Claim C10. For a key shorter than ten characters, \<open>validateProviderApiKey\<close> only sets the
  status to \<open>idle\<close> and sends no request; \<open>fetchModelsForProvider\<close> with such a stored key
  returns the state unchanged; and when the key is not empty, the record button and the
  hotkey still ask for the microphone.
\<close>

theorem short_key_unclassified:
  assumes "length key < 10"
  shows "validateProviderApiKey cl provider key probe resp st =
           updateProviderConfig provider (\<lambda>c. c\<lparr>apiKeyStatus := idle\<rparr>) st \<and>
         apiKeyStatus (providerConfigs (validateProviderApiKey cl provider key probe resp st)
           provider) = idle \<and>
         netLog (validateProviderApiKey cl provider key probe resp st) = netLog st \<and>
         (apiKey (cl provider) = key \<longrightarrow> fetchModelsForProvider cl provider resp st = st) \<and>
         (key \<noteq> [] \<and> cl_apiKey (startRecordingClosure st) = key \<and>
          \<not> isRecording st \<and> \<not> isTranscribing st \<longrightarrow>
            micRequests (recordButton sel st) = Suc (micRequests st) \<and>
            micPending (recordButton sel st) = micPending st @ [FromUI (startRecordingClosure st)]) \<and>
         (key \<noteq> [] \<and> apiKey (currentConfig st) = key \<and>
          \<not> isRecording st \<and> \<not> isTranscribing st \<longrightarrow>
            micRequests (hotkeyToggle st) = Suc (micRequests st) \<and>
            micPending (hotkeyToggle st) = micPending st @ [FromHotkey (transcribedText st)])"
  (is "?A \<and> ?B \<and> ?C \<and> ?D \<and> ?E \<and> ?F")
proof -
  have a: ?A using assms by (simp add: validateProviderApiKey_def)
  have b: ?B unfolding a by (simp add: updateProviderConfig_def Let_def)
  have c: ?C unfolding a by (simp add: updateProviderConfig_def Let_def)
  have d: ?D using assms by (simp add: fetchModelsForProvider_def Let_def)
  have e: ?E by (simp add: recordButton_def startRecording_def)
  have f: ?F by (simp add: hotkeyToggle_def Let_def)
  from a b c d e f show ?thesis by (intro conjI)
qed

text \<open>The key \<open>abc\<close>.\<close>

theorem short_key_unclassified_witness:
  "apiKeyStatus (providerConfigs
     (validateProviderApiKey (providerConfigs (idle_state (lit ''abc''))) gemini (lit ''abc'')
        (ProbeOk True) ModelsNotOk (idle_state (lit ''abc''))) gemini) = idle \<and>
   fetchModelsForProvider (providerConfigs (idle_state (lit ''abc''))) gemini ModelsNotOk
     (idle_state (lit ''abc'')) = idle_state (lit ''abc'') \<and>
   micRequests (recordButton None (idle_state (lit ''abc''))) = 1"
proof -
  have l: "length (lit ''abc'') < 10" by (simp add: lit_def)
  have n: "lit ''abc'' \<noteq> []" by (simp add: lit_def)
  have s: "cl_apiKey (startRecordingClosure (idle_state (lit ''abc''))) = lit ''abc''"
    "\<not> isRecording (idle_state (lit ''abc''))" "\<not> isTranscribing (idle_state (lit ''abc''))"
    "micRequests (idle_state (lit ''abc'')) = 0"
    by (simp_all add: idle_state_def init_state_def)
  show ?thesis
    using short_key_unclassified [OF l, of "providerConfigs (idle_state (lit ''abc''))" gemini
        "ProbeOk True" ModelsNotOk "idle_state (lit ''abc'')" None] n s idle_key [of "lit ''abc''"]
    by (simp add: updateProviderConfig_def Let_def)
qed

section \<open>Transcription runs: properties\<close>

lemma transcribeAudio_complete_flag:
  "isTranscribing (transcribeAudio_complete cl r st) = False"
  by (simp add: transcribeAudio_complete_def Let_def)

lemma transcribeAudioFromHotkey_complete_flag:
  "isTranscribing (transcribeAudioFromHotkey_complete k p c r st) = False"
  by (simp add: transcribeAudioFromHotkey_complete_def Let_def)

text \<open>
  Claim C2. Whatever the provider's answer (a text, the no-speech sentinel, a rejected
  request, an unreadable body, an error object), the transcribing flag is false when a run
  of \<open>transcribeAudio\<close> or of \<open>transcribeAudioFromHotkey\<close> completes, from any state the
  answer finds. With a key the run sets the flag when it begins and clears it when it ends;
  without a key it returns before touching the flag.
\<close>

theorem transcribing_flag_cleared:
  "isTranscribing (transcribeAudio_complete cl r st) = False \<and>
   isTranscribing (transcribeAudioFromHotkey_complete k p c r st) = False \<and>
   (cl_apiKey cl \<noteq> [] \<longrightarrow>
      isTranscribing (transcribeAudio_begin cl st) \<and>
      \<not> isTranscribing (transcribeAudio cl r st)) \<and>
   (apiKey (currentConfig st) \<noteq> [] \<longrightarrow>
      isTranscribing (transcribeAudioFromHotkey_begin st) \<and>
      \<not> isTranscribing (transcribeAudioFromHotkey r st)) \<and>
   (cl_apiKey cl = [] \<longrightarrow> isTranscribing (transcribeAudio cl r st) = isTranscribing st) \<and>
   (apiKey (currentConfig st) = [] \<longrightarrow>
      isTranscribing (transcribeAudioFromHotkey r st) = isTranscribing st) \<and>
   (i < length (transcriptions st) \<longrightarrow> \<not> isTranscribing (handle st (ProviderReplied i r)))"
  (is "?A \<and> ?B \<and> ?C \<and> ?D \<and> ?E \<and> ?F \<and> ?G")
proof -
  have a: ?A by (rule transcribeAudio_complete_flag)
  have b: ?B by (rule transcribeAudioFromHotkey_complete_flag)
  have c: ?C
    by (simp add: transcribeAudio_def transcribeAudio_complete_flag transcribeAudio_begin_def)
  have d: ?D
    by (simp add: transcribeAudioFromHotkey_def transcribeAudioFromHotkey_complete_flag
        transcribeAudioFromHotkey_begin_def Let_def)
  have e: ?E by (simp add: transcribeAudio_def transcribeAudio_begin_def)
  have f: ?F
    by (simp add: transcribeAudioFromHotkey_def transcribeAudioFromHotkey_begin_def Let_def)
  have g: ?G
    by (cases "transcriptions st ! i")
       (simp_all add: handle_def transcriptionDone_def transcribeAudio_complete_flag
          transcribeAudioFromHotkey_complete_flag)
  from a b c d e f g show ?thesis by (intro conjI)
qed

lemma idle_state_current: "apiKey (currentConfig (idle_state k)) = k"
  by (simp add: currentConfig_def idle_state_def init_state_def getDefaultConfig_def)

text \<open>A rejected request on the button path and an error answer on the hotkey path.\<close>

theorem transcribing_flag_cleared_witness:
  "isTranscribing (transcribeAudio_begin (startRecordingClosure (idle_state example_key))
     (idle_state example_key)) \<and>
   \<not> isTranscribing (transcribeAudio (startRecordingClosure (idle_state example_key))
        (FetchRejected (lit ''Failed to fetch'')) (idle_state example_key)) \<and>
   isTranscribing (transcribeAudioFromHotkey_begin (idle_state example_key)) \<and>
   \<not> isTranscribing (transcribeAudioFromHotkey unauthorized (idle_state example_key))"
proof -
  have ne: "example_key \<noteq> []" using example_key_length by auto
  have c: "cl_apiKey (startRecordingClosure (idle_state example_key)) \<noteq> []"
    using ne by (simp add: idle_state_def init_state_def)
  have k: "apiKey (currentConfig (idle_state example_key)) \<noteq> []"
    using ne by (simp add: idle_state_current)
  show ?thesis
    using transcribing_flag_cleared [of "startRecordingClosure (idle_state example_key)"
        "FetchRejected (lit ''Failed to fetch'')" "idle_state example_key"]
      transcribing_flag_cleared [of "startRecordingClosure (idle_state example_key)"
        unauthorized "idle_state example_key"] c k
    by simp
qed

section \<open>Trigger coordinator: properties\<close>












lemma coordinated_cong:
  assumes "micPending st' = micPending st" "recorders st' = recorders st"
    "hotkeyPending st' = hotkeyPending st" "isRecording st' = isRecording st"
    "mediaRecorderRef st' = mediaRecorderRef st" "transcriptions st' = transcriptions st"
    "isTranscribing st' = isTranscribing st"
  shows "coordinated st' = coordinated st"
  using assms by (simp add: coordinated_def recordingSessions_def stoppingSessions_def)

lemma updateProviderConfig_coordinated [simp]:
  "coordinated (updateProviderConfig p u st) = coordinated st"
  by (rule coordinated_cong) (simp_all add: updateProviderConfig_def Let_def)

lemma coordinated_text [simp]:
  "coordinated (st\<lparr>transcribedText := t\<rparr>) = coordinated st"
  by (rule coordinated_cong) simp_all











lemma insertTextAtCursor_coordinated [simp]:
  "coordinated (insertTextAtCursor b t st) = coordinated st"
  by (rule coordinated_cong) (simp_all add: insertTextAtCursor_def Let_def)






named_theorems ev

lemmas [ev] = run_def step_def handle_def render_def recordButton_def startRecording_def
  stopRecording_def stopRecorder_def hotkeyTriggered_def hotkeyToggle_def micGranted_def
  micDenied_def recorderOnStop_def transcriptionDone_def transcribeAudio_begin_def
  transcribeAudio_complete_def transcribeAudioFromHotkey_begin_def
  transcribeAudioFromHotkey_complete_def transcribeWithProvider_def transcribeRequest_def
  insertTextAtCursor_def updateProviderConfig_def saveProviderApiKey_def selectProvider_def
  selectModel_def currentConfig_def dropAt_def COOLDOWN_MS_def init_state_def
  getDefaultConfig_def DEFAULT_MODELS_def noKeyMessage_def isAuthError_def providerLabel_def
  defaultModel_def invalidKeyMessage_def lit_def Let_def






text \<open>
  Claim C7 fails on the code: an answer with status 401 and the error message
  \<open>Incorrect API key provided\<close> is reported as \<open>Fehler: Incorrect API key provided\<close> on both
  paths and the key status of the provider stays \<open>idle\<close>. \<open>transcribeWithProvider\<close> does not
  depend on the status of the response.
\<close>

theorem unauthorized_reply_not_flagged:
  "transcribedText (run openai_state
     [UIClick None, MicGranted 0 None, UIClick None, RecorderStopped 0,
      ProviderReplied 0 unauthorized]) = lit ''Fehler: Incorrect API key provided'' \<and>
   apiKeyStatus (providerConfigs (run openai_state
     [UIClick None, MicGranted 0 None, UIClick None, RecorderStopped 0,
      ProviderReplied 0 unauthorized]) openai) = idle \<and>
   transcribedText (run openai_state
     [HotkeyPressed 1000, WindowShown, MicGranted 0 None, HotkeyPressed 9000, WindowShown,
      RecorderStopped 0, ProviderReplied 0 unauthorized])
     = lit ''Fehler: Incorrect API key provided'' \<and>
   apiKeyStatus (providerConfigs (run openai_state
     [HotkeyPressed 1000, WindowShown, MicGranted 0 None, HotkeyPressed 9000, WindowShown,
      RecorderStopped 0, ProviderReplied 0 unauthorized]) openai) = idle \<and>
   transcribeWithProvider p c (Response status body) = transcribeWithProvider p c (Response 200 body)"
  by (simp add: ev openai_state_def example_key_def unauthorized_def)

text \<open>
  Claim C4 fails on the hotkey path: with no key stored, a hotkey press on an idle component
  requests no microphone and creates no recorder, but leaves the text as it was; the record
  button sets the placeholder message.
\<close>

theorem hotkey_without_key_silent:
  "transcribedText (run init_state [UserEdit (lit ''Notiz''), HotkeyPressed 1000, WindowShown])
     = lit ''Notiz'' \<and>
   micRequests (run init_state [UserEdit (lit ''Notiz''), HotkeyPressed 1000, WindowShown]) = 0 \<and>
   micPending (run init_state [UserEdit (lit ''Notiz''), HotkeyPressed 1000, WindowShown]) = [] \<and>
   recorders (run init_state [UserEdit (lit ''Notiz''), HotkeyPressed 1000, WindowShown]) = [] \<and>
   \<not> isRecording (run init_state [UserEdit (lit ''Notiz''), HotkeyPressed 1000, WindowShown]) \<and>
   transcribedText (run init_state [UserEdit (lit ''Notiz''), UIClick None]) = noKeyMessage \<and>
   micRequests (run init_state [UserEdit (lit ''Notiz''), UIClick None]) = 0 \<and>
   noKeyMessage \<noteq> lit ''Notiz''"
  by (simp add: ev)

text \<open>
  Claim C9 fails on the button path. A recording is started by the button on an empty text,
  the user types \<open>typed\<close> while it runs, and the provider answers with the sentinel: the
  run tests the \<open>transcribedText\<close> of the render that started the recording, which is
  empty, and overwrites the text \<open>typed\<close> with the no-speech message. The same events on
  the hotkey path, which reads \<open>transcribedTextRef\<close> when the answer arrives, leave the
  text as it is. With an ordinary transcript the button path likewise inserts into the text
  of that render and drops what was typed, where the hotkey path inserts into the current
  text at the saved cursor.
\<close>

theorem typed_text_overwritten:
  "transcribedText (run (idle_state example_key)
     [UIClick None, MicGranted 0 None, UserEdit (lit ''typed''), UIClick None,
      RecorderStopped 0, ProviderReplied 0 (Response 200 (Json noSpeechSentinel None))])
     = noSpeechMessage \<and>
   noSpeechMessage \<noteq> lit ''typed'' \<and>
   transcribedText (run (idle_state example_key)
     [HotkeyPressed 1000, WindowShown, MicGranted 0 None, UserEdit (lit ''typed''),
      HotkeyPressed 9000, WindowShown, RecorderStopped 0,
      ProviderReplied 0 (Response 200 (Json noSpeechSentinel None))])
     = lit ''typed'' \<and>
   transcribedText (run (idle_state example_key)
     [UIClick None, MicGranted 0 None, UserEdit (lit ''typed''), UIClick None,
      RecorderStopped 0, ProviderReplied 0 (Response 200 (Json (lit '' Hallo '') None))])
     = lit ''Hallo'' \<and>
   transcribedText (run (idle_state example_key)
     [HotkeyPressed 1000, WindowShown, MicGranted 0 None, UserEdit (lit ''typed''),
      HotkeyPressed 9000, WindowShown, RecorderStopped 0,
      ProviderReplied 0 (Response 200 (Json (lit '' Hallo '') None))])
     = lit ''Hallotyped''"
  by (simp add: ev idle_state_def example_key_def noSpeechSentinel_def noSpeechMessage_def
      trim_def isWhiteSpace_def)

end
